theory Spec2Isabelle
  imports Main
begin

section \<open>JavaScript values\<close>

text \<open>
  The settings store (electron-store), the session file and the option objects handed to
  \<open>createWindow\<close> hold JSON data. A JavaScript value is a JSON value or \<open>undefined\<close>
  (\<open>None\<close>). Numbers are integers of the safe range (\<open>Date.now()\<close> and the pixel
  rectangles of Electron are such); fractions, infinities and the rounding of doubles are
  outside the model. Strings are lists of 8-bit characters. An object lists its own
  properties in insertion order.
\<close>

datatype json =
    JNull
  | JBool bool
  | JNum int
  | JStr string
  | JArr "json list"
  | JObj "(string \<times> json) list"

type_synonym jsv = "json option"

datatype error = TypeError | SyntaxError

text \<open>ToBoolean: what \<open>a || b\<close>, \<open>!a\<close> and \<open>if (a)\<close> test.\<close>

fun truthy :: "json \<Rightarrow> bool" where
  "truthy JNull = False"
| "truthy (JBool b) = b"
| "truthy (JNum n) = (n \<noteq> 0)"
| "truthy (JStr s) = (s \<noteq> [])"
| "truthy (JArr xs) = True"
| "truthy (JObj kvs) = True"

definition truthyV :: "jsv \<Rightarrow> bool" where
  "truthyV a = (case a of None \<Rightarrow> False | Some v \<Rightarrow> truthy v)"

text \<open>\<open>a || d\<close> with a fallback \<open>d\<close> that is defined.\<close>

definition js_or :: "jsv \<Rightarrow> json \<Rightarrow> json" where
  "js_or a d = (case a of None \<Rightarrow> d | Some v \<Rightarrow> if truthy v then v else d)"

text \<open>A destructuring default \<open>{ k = d } = options\<close> applies when the property is \<open>undefined\<close> only.\<close>

definition dflt :: "jsv \<Rightarrow> json \<Rightarrow> json" where
  "dflt a d = (case a of None \<Rightarrow> d | Some v \<Rightarrow> v)"

text \<open>
  Reading a property of a parsed JSON value, for the property names this program reads
  (none of them is a property of a prototype): \<open>null\<close> throws, an object yields its own
  property (the last one of that name, as \<open>JSON.parse\<close> keeps it), everything else yields
  \<open>undefined\<close>.
\<close>

fun getProp :: "json \<Rightarrow> string \<Rightarrow> error + jsv" where
  "getProp JNull k = Inl TypeError"
| "getProp (JObj kvs) k = Inr (map_of (rev kvs) k)"
| "getProp v k = Inr None"

definition field :: "json \<Rightarrow> string \<Rightarrow> jsv" where
  "field v k = (case getProp v k of Inl e \<Rightarrow> None | Inr p \<Rightarrow> p)"

subsection \<open>Strings\<close>

text \<open>\<open>String.prototype.toLowerCase\<close>, on ASCII.\<close>

definition lowerChar :: "char \<Rightarrow> char" where
  "lowerChar c =
     (case map_of (zip ''ABCDEFGHIJKLMNOPQRSTUVWXYZ'' ''abcdefghijklmnopqrstuvwxyz'') c of
        Some l \<Rightarrow> l
      | None \<Rightarrow> c)"

definition toLowerCase :: "string \<Rightarrow> string" where
  "toLowerCase s = map lowerChar s"

fun startsWith :: "string \<Rightarrow> string \<Rightarrow> bool" where
  "startsWith s [] = True"
| "startsWith [] (p # ps) = False"
| "startsWith (c # cs) (p # ps) = (c = p \<and> startsWith cs ps)"

text \<open>\<open>s.includes(p)\<close>\<close>

fun str_includes :: "string \<Rightarrow> string \<Rightarrow> bool" where
  "str_includes [] p = (p = [])"
| "str_includes (c # cs) p = (startsWith (c # cs) p \<or> str_includes cs p)"

text \<open>Decimal digits of an integer, as \<open>Number.prototype.toString\<close> prints it.\<close>

definition digitChar :: "nat \<Rightarrow> char" where
  "digitChar d = ''0123456789'' ! d"

function showNat :: "nat \<Rightarrow> string" where
  "showNat n = (if n < 10 then [digitChar n] else showNat (n div 10) @ [digitChar (n mod 10)])"
  by pat_completeness auto
termination
  by (relation "measure id") auto

definition showInt :: "int \<Rightarrow> string" where
  "showInt i = (if i < 0 then CHR ''-'' # showNat (nat (- i)) else showNat (nat i))"

text \<open>
  ToString of a JSON value, as a template literal and a computed property key apply it.
  An array joins its elements with commas (\<open>null\<close> prints as the empty string). An object
  prints through \<open>Object.prototype.toString\<close>, unless it has an own property
  \<open>toString\<close>: that one is JSON data, hence not callable, and the conversion throws.
\<close>

fun toStr :: "json \<Rightarrow> error + string"
  and joinElems :: "json list \<Rightarrow> error + string" where
  "toStr JNull = Inr ''null''"
| "toStr (JBool b) = Inr (if b then ''true'' else ''false'')"
| "toStr (JNum n) = Inr (showInt n)"
| "toStr (JStr s) = Inr s"
| "toStr (JArr xs) = joinElems xs"
| "toStr (JObj kvs) =
     (if ''toString'' \<in> set (map fst kvs) then Inl TypeError else Inr ''[object Object]'')"
| "joinElems [] = Inr []"
| "joinElems (v # vs) =
     (case (if v = JNull then Inr [] else toStr v) of
        Inl e \<Rightarrow> Inl e
      | Inr s \<Rightarrow>
          (if vs = [] then Inr s
           else case joinElems vs of Inl e \<Rightarrow> Inl e | Inr t \<Rightarrow> Inr (s @ '','' @ t)))"

definition toStrV :: "jsv \<Rightarrow> error + string" where
  "toStrV a = (case a of None \<Rightarrow> Inr ''undefined'' | Some v \<Rightarrow> toStr v)"

text \<open>
  ToNumber, with \<open>None\<close> for NaN. The reading of a string as a numeric literal
  (StringToNumber of the language) is a parameter.
\<close>

definition toNumber :: "(string \<Rightarrow> int option) \<Rightarrow> jsv \<Rightarrow> error + int option" where
  "toNumber strnum a =
     (case a of
        None \<Rightarrow> Inr None
      | Some JNull \<Rightarrow> Inr (Some 0)
      | Some (JBool b) \<Rightarrow> Inr (Some (if b then 1 else 0))
      | Some (JNum n) \<Rightarrow> Inr (Some n)
      | Some (JStr s) \<Rightarrow> Inr (strnum s)
      | Some (JArr xs) \<Rightarrow> (case toStr (JArr xs) of Inl e \<Rightarrow> Inl e | Inr s \<Rightarrow> Inr (strnum s))
      | Some (JObj kvs) \<Rightarrow> (case toStr (JObj kvs) of Inl e \<Rightarrow> Inl e | Inr s \<Rightarrow> Inr None))"

section \<open>store.js\<close>

text \<open>The store maps a key to its value, \<open>undefined\<close> when the key is absent.\<close>

type_synonym store = "string \<Rightarrow> jsv"

definition getValue :: "store \<Rightarrow> string \<Rightarrow> jsv" where
  "getValue st key = st key"

definition setValue :: "store \<Rightarrow> string \<Rightarrow> json \<Rightarrow> store" where
  "setValue st key v = st(key := Some v)"

section \<open>appLauncher.js\<close>

text \<open>\<open>APP_URLS\<close>: for each app its personal and its work address.\<close>

definition APP_URLS_home :: "string \<times> string" where
  "APP_URLS_home = (''https://microsoft365.com/?auth=1'', ''https://microsoft365.com/?auth=2'')"

definition APP_URLS :: "(string \<times> string \<times> string) list" where
  "APP_URLS =
     [(''word'', ''https://microsoft365.com/launch/word?auth=1'',
                 ''https://microsoft365.com/launch/word?auth=2''),
      (''excel'', ''https://microsoft365.com/launch/excel?auth=1'',
                  ''https://microsoft365.com/launch/excel?auth=2''),
      (''powerpoint'', ''https://microsoft365.com/launch/powerpoint?auth=1'',
                       ''https://microsoft365.com/launch/powerpoint?auth=2''),
      (''outlook'', ''https://outlook.live.com/mail/'', ''https://outlook.office.com/mail/''),
      (''onedrive'', ''https://microsoft365.com/launch/onedrive?auth=1'',
                     ''https://microsoft365.com/launch/onedrive?auth=2''),
      (''onenote'', ''https://www.onenote.com/notebooks?auth=1'',
                    ''https://www.onenote.com/notebooks?auth=2''),
      (''teams'', ''https://teams.live.com/'', ''https://teams.microsoft.com/''),
      (''allapps'', ''https://www.microsoft365.com/apps?auth=1'',
                    ''https://www.microsoft365.com/apps?auth=2''),
      (''home'', APP_URLS_home)]"

text \<open>\<open>app[type]\<close> on an entry of the table, by its own keys \<open>personal\<close> and \<open>work\<close>.\<close>

definition urlOf :: "string \<times> string \<Rightarrow> string \<Rightarrow> jsv" where
  "urlOf app key =
     (if key = ''personal'' then Some (JStr (fst app))
      else if key = ''work'' then Some (JStr (snd app))
      else None)"

definition getAccountType :: "store \<Rightarrow> string" where
  "getAccountType st =
     (if getValue st ''enterprise-or-normal'' = Some (JStr ''?auth=2'')
      then ''work'' else ''personal'')"

definition getPartition :: "store \<Rightarrow> jsv \<Rightarrow> string" where
  "getPartition st accountTypeArg =
     (let type = js_or accountTypeArg (JStr (getAccountType st))
      in if type = JStr ''work'' then ''persist:work'' else ''persist:personal'')"

text \<open>
  \<open>getAppUrl\<close>: \<open>appName.toLowerCase()\<close> throws unless the name is a string; the table
  is read by its own keys (a name such as \<open>constructor\<close>, which JavaScript would find on
  \<open>Object.prototype\<close>, is outside the model).
\<close>

definition getAppUrl :: "store \<Rightarrow> jsv \<Rightarrow> jsv \<Rightarrow> error + jsv" where
  "getAppUrl st appName accountTypeArg =
     (let type = js_or accountTypeArg (JStr (getAccountType st)) in
      case appName of
        Some (JStr name) \<Rightarrow>
          (let app = (case map_of APP_URLS (toLowerCase name) of
                        None \<Rightarrow> APP_URLS_home
                      | Some a \<Rightarrow> a)
           in case toStr type of Inl e \<Rightarrow> Inl e | Inr key \<Rightarrow> Inr (urlOf app key))
      | _ \<Rightarrow> Inl TypeError)"

section \<open>windowManager.js\<close>

text \<open>
  The metadata record of a managed window. \<open>appType\<close>, \<open>accountType\<close>, \<open>bounds\<close>
  and \<open>isMaximized\<close> hold whatever the caller of \<open>createWindow\<close> passed; \<open>url\<close> can
  be \<open>undefined\<close>, when the table of addresses has none for the account.
\<close>

record wmeta =
  winId :: nat
  appType :: json
  accountType :: json
  url :: jsv
  bounds :: json
  isMaximized :: json
  isFullScreen :: bool

text \<open>The argument of \<open>createWindow\<close>: each property is a value or \<open>undefined\<close>.\<close>

record options =
  o_url :: jsv
  o_appType :: jsv
  o_accountType :: jsv
  o_bounds :: jsv
  o_isMaximized :: jsv
  o_show :: jsv

text \<open>
  What the program asked of Electron for one \<open>BrowserWindow\<close>: the rectangle spread into
  the constructor's options (\<open>None\<close> where the size comes from the screen alone), the
  session partition, the arguments of \<open>loadURL\<close> (address and user agent) once it is
  called, and what the \<open>ready-to-show\<close> handler will do (maximize, show) once attached.
\<close>

record browserWindow =
  bw_id :: nat
  bw_bounds :: jsv
  bw_partition :: "string option"
  bw_autoHideMenuBar :: bool
  bw_loadURL :: "(jsv \<times> jsv) option"
  bw_onReady :: "(bool \<times> bool) option"

text \<open>
  The state of a native window as Electron reports it when asked: \<open>getBounds()\<close>,
  \<open>isMaximized()\<close>, \<open>isFullScreen()\<close> and \<open>webContents.getURL()\<close>. It belongs to the
  platform, so every function that asks takes it as an argument.
\<close>

record rectangle =
  rect_x :: int
  rect_y :: int
  rect_width :: int
  rect_height :: int

definition rectJson :: "rectangle \<Rightarrow> json" where
  "rectJson r =
     JObj [(''x'', JNum (rect_x r)), (''y'', JNum (rect_y r)),
           (''width'', JNum (rect_width r)), (''height'', JNum (rect_height r))]"

record native =
  getBounds :: rectangle
  nativeMaximized :: bool
  nativeFullScreen :: bool
  getURL :: string

text \<open>The content of the session file: text that \<open>JSON.parse\<close> rejects, or the document it denotes.\<close>

datatype content = Unparseable | Doc json

text \<open>
  The state of the main process: the settings, the registry \<open>managedWindows\<close> (keyed by the
  native window id), \<open>windowIdCounter\<close>, the session file (\<open>None\<close> when it does not
  exist), the pending timers of session restore (delay in milliseconds and the window record
  the callback closes over), the windows constructed so far and \<open>isQuitting\<close> of main.js.
  File-system calls succeed; console output and \<open>app.emit\<close> are left out.
\<close>

record world =
  settings :: store
  managedWindows :: "nat \<rightharpoonup> wmeta"
  windowIdCounter :: nat
  sessionFile :: "content option"
  timers :: "(nat \<times> json) list"
  browserWindows :: "browserWindow list"
  isQuitting :: bool

text \<open>
  What the program reads from its surroundings: \<open>defaultBounds\<close> of \<open>createWindow\<close> (the
  work area times the window fractions, rounded: floating point, with \<open>x\<close> and \<open>y\<close>
  undefined, which a JSON object renders as absent), the numeric reading of strings, the user
  agent of arch.js, and the startup configuration that cli.js parsed.
\<close>

record env =
  defaultBounds :: json
  stringToNumber :: "string \<Rightarrow> int option"
  optimalUserAgent :: string
  cli_startupApp :: jsv
  cli_accountType :: jsv

definition detectAppType :: "string \<Rightarrow> string" where
  "detectAppType newUrl =
     (let urlLower = toLowerCase newUrl in
      if str_includes urlLower ''word'' \<or> str_includes urlLower ''.docx'' then ''word''
      else if str_includes urlLower ''excel'' \<or> str_includes urlLower ''.xlsx'' then ''excel''
      else if str_includes urlLower ''powerpoint'' \<or> str_includes urlLower ''.pptx''
        then ''powerpoint''
      else if str_includes urlLower ''outlook'' then ''outlook''
      else if str_includes urlLower ''onedrive'' then ''onedrive''
      else if str_includes urlLower ''onenote'' then ''onenote''
      else if str_includes urlLower ''teams'' then ''teams''
      else ''home'')"

text \<open>
  Two expressions of \<open>createWindow\<close>: the address kept in the record,
  \<open>url || getAppUrl(appType, accountType)\<close>, and \<open>loadUrl\<close>, the address loaded. The
  right-hand side of \<open>||\<close> is evaluated for a falsy \<open>url\<close> only.
\<close>

definition metaUrl :: "store \<Rightarrow> json \<Rightarrow> json \<Rightarrow> json \<Rightarrow> error + jsv" where
  "metaUrl st urlArg appTypeArg accountTypeArg =
     (if truthy urlArg then Inr (Some urlArg)
      else getAppUrl st (Some appTypeArg) (Some accountTypeArg))"

definition loadUrl :: "store \<Rightarrow> json \<Rightarrow> json \<Rightarrow> error + json" where
  "loadUrl st urlArg accountTypeArg =
     (if truthy urlArg then Inr urlArg
      else case toStr (js_or (getValue st ''custompage'') (JStr ''home'')) of
             Inl err \<Rightarrow> Inl err
           | Inr page \<Rightarrow>
               Inr (JStr (''https://microsoft365.com/'' @ page @ ''/'' @
                 (if accountTypeArg = JStr ''work'' then ''?auth=2'' else ''?auth=1''))))"

text \<open>
  \<open>createWindow(options)\<close>. \<open>nativeId\<close> is the id Electron gave the new
  \<open>BrowserWindow\<close>. The counter is bumped and the window constructed before \<open>getAppUrl\<close>
  can throw, the record is stored before the address template can throw; the result holds
  the exception, if any, and the state reached.
\<close>

definition createWindow :: "env \<Rightarrow> nat \<Rightarrow> options \<Rightarrow> world \<Rightarrow> error option \<times> world" where
  "createWindow e nativeId opts w =
     (let st = settings w;
          url = dflt (o_url opts) JNull;
          appType = dflt (o_appType opts) (JStr ''home'');
          accountType = dflt (o_accountType opts)
            (JStr (if getValue st ''enterprise-or-normal'' = Some (JStr ''?auth=2'')
                   then ''work'' else ''personal''));
          bounds = dflt (o_bounds opts) JNull;
          isMaximized = dflt (o_isMaximized opts) (JBool False);
          showOpt = dflt (o_show opts) (JBool True);
          windowId = Suc (windowIdCounter w);
          partition = getPartition st (Some accountType);
          windowBounds = js_or (Some bounds) (defaultBounds e);
          window = \<lparr>bw_id = nativeId, bw_bounds = Some windowBounds,
                    bw_partition = Some partition,
                    bw_autoHideMenuBar = (getValue st ''autohide-menubar'' = Some (JStr ''true'')),
                    bw_loadURL = None, bw_onReady = None\<rparr>;
          w1 = w\<lparr>windowIdCounter := windowId, browserWindows := browserWindows w @ [window]\<rparr>
      in case metaUrl st url appType accountType of
           Inl err \<Rightarrow> (Some err, w1)
         | Inr address \<Rightarrow>
             (let meta = \<lparr>winId = windowId, appType = appType, accountType = accountType,
                          url = address, bounds = windowBounds, isMaximized = isMaximized,
                          isFullScreen = False\<rparr>;
                  w2 = w1\<lparr>managedWindows := (managedWindows w1)(nativeId \<mapsto> meta)\<rparr>
              in case loadUrl st url accountType of
                   Inl err \<Rightarrow> (Some err, w2)
                 | Inr target \<Rightarrow>
                     (None, w2\<lparr>browserWindows := browserWindows w @
                        [window\<lparr>bw_loadURL := Some (Some target, getValue st ''useragentstring''),
                                bw_onReady := Some (truthy isMaximized, truthy showOpt)\<rparr>]\<rparr>)))"

text \<open>
  The handlers \<open>createWindow\<close> attaches to the window of id \<open>nativeId\<close>. A resize or a
  move comes with the native state the handler finds when it runs.
\<close>

datatype event =
    Maximize
  | Unmaximize
  | EnterFullScreen
  | LeaveFullScreen
  | Resize native
  | Move native
  | DidNavigate string
  | DidNavigateInPage string
  | Closed

definition updateMeta :: "nat \<Rightarrow> (wmeta \<Rightarrow> wmeta) \<Rightarrow> world \<Rightarrow> world" where
  "updateMeta nativeId f w =
     (case managedWindows w nativeId of
        None \<Rightarrow> w
      | Some meta \<Rightarrow> w\<lparr>managedWindows := (managedWindows w)(nativeId \<mapsto> f meta)\<rparr>)"

fun handleEvent :: "nat \<Rightarrow> event \<Rightarrow> world \<Rightarrow> world" where
  "handleEvent nativeId Maximize w = updateMeta nativeId (\<lambda>meta. meta\<lparr>isMaximized := JBool True\<rparr>) w"
| "handleEvent nativeId Unmaximize w = updateMeta nativeId (\<lambda>meta. meta\<lparr>isMaximized := JBool False\<rparr>) w"
| "handleEvent nativeId EnterFullScreen w = updateMeta nativeId (\<lambda>meta. meta\<lparr>isFullScreen := True\<rparr>) w"
| "handleEvent nativeId LeaveFullScreen w = updateMeta nativeId (\<lambda>meta. meta\<lparr>isFullScreen := False\<rparr>) w"
| "handleEvent nativeId (Resize window) w =
     (if \<not> nativeMaximized window \<and> \<not> nativeFullScreen window
      then updateMeta nativeId (\<lambda>meta. meta\<lparr>bounds := rectJson (getBounds window)\<rparr>) w
      else w)"
| "handleEvent nativeId (Move window) w =
     (if \<not> nativeMaximized window \<and> \<not> nativeFullScreen window
      then updateMeta nativeId (\<lambda>meta. meta\<lparr>bounds := rectJson (getBounds window)\<rparr>) w
      else w)"
| "handleEvent nativeId (DidNavigate newUrl) w =
     updateMeta nativeId
       (\<lambda>meta. meta\<lparr>url := Some (JStr newUrl), appType := JStr (detectAppType newUrl)\<rparr>) w"
| "handleEvent nativeId (DidNavigateInPage newUrl) w =
     updateMeta nativeId
       (\<lambda>meta. meta\<lparr>url := Some (JStr newUrl), appType := JStr (detectAppType newUrl)\<rparr>) w"
| "handleEvent nativeId Closed w = w\<lparr>managedWindows := (managedWindows w)(nativeId := None)\<rparr>"

text \<open>
  \<open>getSessionState\<close>: \<open>allWindows\<close> is \<open>BrowserWindow.getAllWindows()\<close>, each window with
  its id and its native state.
\<close>

fun getSessionState :: "(nat \<times> native) list \<Rightarrow> (nat \<rightharpoonup> wmeta) \<Rightarrow> wmeta list" where
  "getSessionState [] reg = []"
| "getSessionState ((nativeId, window) # rest) reg =
     (case reg nativeId of
        None \<Rightarrow> getSessionState rest reg
      | Some meta \<Rightarrow>
          meta\<lparr>bounds := (if nativeMaximized window then bounds meta
                           else rectJson (getBounds window)),
               isMaximized := JBool (nativeMaximized window),
               isFullScreen := nativeFullScreen window,
               url := Some (JStr (getURL window))\<rparr>
          # getSessionState rest reg)"

section \<open>sessionManager.js\<close>

text \<open>
  \<open>JSON.stringify\<close> of one record of the session state: a property whose value is
  \<open>undefined\<close> is dropped.
\<close>

definition metaJson :: "wmeta \<Rightarrow> json" where
  "metaJson meta =
     JObj ([(''id'', JNum (int (winId meta))), (''appType'', appType meta),
            (''accountType'', accountType meta)] @
           (case url meta of None \<Rightarrow> [] | Some u \<Rightarrow> [(''url'', u)]) @
           [(''bounds'', bounds meta), (''isMaximized'', isMaximized meta),
            (''isFullScreen'', JBool (isFullScreen meta))])"

definition saveSession :: "int \<Rightarrow> (nat \<times> native) list \<Rightarrow> world \<Rightarrow> world" where
  "saveSession now allWindows w =
     (if getValue (settings w) ''restoreSession'' \<noteq> Some (JBool True) then w
      else
        let state = getSessionState allWindows (managedWindows w);
            sessionData = JObj [(''version'', JNum 1), (''timestamp'', JNum now),
                                (''windows'', JArr (map metaJson state))]
        in w\<lparr>sessionFile := Some (Doc sessionData)\<rparr>)"

definition clearSession :: "world \<Rightarrow> world" where
  "clearSession w = (if sessionFile w \<noteq> None then w\<lparr>sessionFile := None\<rparr> else w)"

definition maxAge :: int where
  "maxAge = 24 * 60 * 60 * 1000"

text \<open>
  \<open>restoreSession\<close>: every exception inside the \<open>try\<close> block ends in \<open>return false\<close>.
  The windows are not created here: a timer is set for each, \<open>index * 100\<close> milliseconds
  ahead.
\<close>

definition restoreSession :: "env \<Rightarrow> int \<Rightarrow> world \<Rightarrow> bool \<times> world" where
  "restoreSession e now w =
     (if getValue (settings w) ''restoreSession'' \<noteq> Some (JBool True) then (False, w)
      else case sessionFile w of
        None \<Rightarrow> (False, w)
      | Some Unparseable \<Rightarrow> (False, w)
      | Some (Doc sessionData) \<Rightarrow>
          (case getProp sessionData ''windows'' of
             Inl err \<Rightarrow> (False, w)
           | Inr None \<Rightarrow> (False, w)
           | Inr (Some (JArr windows)) \<Rightarrow>
               (case toNumber (stringToNumber e) (field sessionData ''timestamp'') of
                  Inl err \<Rightarrow> (False, w)
                | Inr timestamp \<Rightarrow>
                    if (case timestamp of None \<Rightarrow> False | Some t \<Rightarrow> now - t > maxAge)
                    then (False, clearSession w)
                    else
                      let windowCount = length windows in
                      if windowCount = 0 then (False, w)
                      else (True, w\<lparr>timers := timers w @
                              map (\<lambda>(index, windowMeta). (index * 100, windowMeta))
                                (enumerate 0 windows)\<rparr>))
           | Inr (Some other) \<Rightarrow> (False, w)))"

text \<open>
  The callback of one restore timer. It runs outside the \<open>try\<close> block: reading
  \<open>windowMeta.url\<close> of \<open>null\<close> throws, and so can \<open>createWindow\<close>.
\<close>

definition restoreWindow :: "env \<Rightarrow> nat \<Rightarrow> json \<Rightarrow> world \<Rightarrow> error option \<times> world" where
  "restoreWindow e nativeId windowMeta w =
     (case getProp windowMeta ''url'' of
        Inl err \<Rightarrow> (Some err, w)
      | Inr u \<Rightarrow>
          createWindow e nativeId
            \<lparr>o_url = u, o_appType = field windowMeta ''appType'',
             o_accountType = field windowMeta ''accountType'',
             o_bounds = field windowMeta ''bounds'',
             o_isMaximized = field windowMeta ''isMaximized'',
             o_show = Some (JBool True)\<rparr> w)"

text \<open>
  The event loop fires the pending timers by delay, the earlier set first among equal
  delays. \<open>nativeIds\<close> are the ids Electron gives the windows constructed, one per timer
  fired; timers beyond them stay pending (the application may quit first). An exception
  in a callback stays in that callback.
\<close>

fun fireTimers :: "env \<Rightarrow> nat list \<Rightarrow> world \<Rightarrow> world" where
  "fireTimers e [] w = w"
| "fireTimers e (nativeId # nativeIds) w =
     (case sort_key fst (timers w) of
        [] \<Rightarrow> w
      | (delay, windowMeta) # later \<Rightarrow>
          fireTimers e nativeIds (snd (restoreWindow e nativeId windowMeta (w\<lparr>timers := later\<rparr>))))"

text \<open>\<open>initializeSessionManager\<close>: the handler of \<open>before-quit\<close> and the body of the five-minute interval.\<close>

definition sessionManager_beforeQuit :: "int \<Rightarrow> (nat \<times> native) list \<Rightarrow> world \<Rightarrow> world" where
  "sessionManager_beforeQuit now allWindows w = saveSession now allWindows w"

definition autosave :: "int \<Rightarrow> (nat \<times> native) list \<Rightarrow> world \<Rightarrow> world" where
  "autosave now allWindows w =
     (if getValue (settings w) ''restoreSession'' = Some (JBool True)
      then saveSession now allWindows w else w)"

section \<open>main.js\<close>

text \<open>
  \<open>createWindow\<close> of main.js, which does not go through windowManager.js: it constructs
  the main window and a splash window, and registers neither. Their sizes are floating-point
  arithmetic on the screen size and are left out.
\<close>

definition main_createWindow :: "env \<Rightarrow> nat \<Rightarrow> nat \<Rightarrow> world \<Rightarrow> error option \<times> world" where
  "main_createWindow e nativeId splashId w =
     (let st = settings w;
          enterpriseOrNormal = getValue st ''enterprise-or-normal'';
          custompage = js_or (getValue st ''custompage'') (JStr ''home'');
          partition = (if enterpriseOrNormal = Some (JStr ''?auth=1'')
                       then ''persist:personal'' else ''persist:work'');
          win = \<lparr>bw_id = nativeId, bw_bounds = None, bw_partition = Some partition,
                 bw_autoHideMenuBar = (getValue st ''autohide-menubar'' = Some (JStr ''true'')),
                 bw_loadURL = None, bw_onReady = None\<rparr>;
          w1 = w\<lparr>browserWindows := browserWindows w @ [win]\<rparr>
      in case (case toStr custompage of
                 Inl err \<Rightarrow> Inl err
               | Inr page \<Rightarrow>
                   (case toStrV enterpriseOrNormal of
                      Inl err \<Rightarrow> Inl err
                    | Inr auth \<Rightarrow> Inr (''https://microsoft365.com/'' @ page @ ''/'' @ auth))) of
           Inl err \<Rightarrow> (Some err, w1)
         | Inr homeUrl \<Rightarrow>
             (case (if truthyV (cli_startupApp e)
                    then getAppUrl st (cli_startupApp e)
                           (Some (js_or (cli_accountType e) (JStr (getAccountType st))))
                    else Inr (Some (JStr homeUrl))) of
                Inl err \<Rightarrow> (Some err, w1)
              | Inr startUrl \<Rightarrow>
                  (let splash = \<lparr>bw_id = splashId, bw_bounds = None, bw_partition = None,
                                  bw_autoHideMenuBar = False,
                                  bw_loadURL = Some (Some (JStr
                                    ''https://agam778.github.io/MS-365-Electron/loading''), None),
                                  bw_onReady = None\<rparr>
                   in (None, w\<lparr>browserWindows := browserWindows w @
                         [win\<lparr>bw_loadURL := Some (startUrl,
                            Some (js_or (getValue st ''useragentstring'')
                                    (JStr (optimalUserAgent e))))\<rparr>,
                          splash]\<rparr>))))"

text \<open>The end of the \<open>ready\<close> handler: restore the session, else create the main window.\<close>

definition ready :: "env \<Rightarrow> int \<Rightarrow> nat \<Rightarrow> nat \<Rightarrow> world \<Rightarrow> error option \<times> world" where
  "ready e now nativeId splashId w =
     (let (sessionRestored, w1) = restoreSession e now w in
      if \<not> sessionRestored then main_createWindow e nativeId splashId w1 else (None, w1))"

definition main_beforeQuit :: "int \<Rightarrow> (nat \<times> native) list \<Rightarrow> world \<Rightarrow> world" where
  "main_beforeQuit now allWindows w = saveSession now allWindows (w\<lparr>isQuitting := True\<rparr>)"

text \<open>
  The application named for the tray icon by the \<open>did-finish-load\<close> handler, from the
  address and the title of the focused window.
\<close>

definition currentApp :: "string \<Rightarrow> string \<Rightarrow> string" where
  "currentApp u title =
     (if str_includes u ''&ithint=file%2cpptx'' \<or> str_includes title ''.pptx'' then ''powerpoint''
      else if str_includes u ''&ithint=file%2cdocx'' \<or> str_includes title ''.docx'' then ''word''
      else if str_includes u ''&ithint=file%2cxlsx'' \<or> str_includes title ''.xlsx'' then ''excel''
      else if str_includes u ''outlook.live.com'' \<or> str_includes u ''outlook.office.com''
        then ''outlook''
      else if str_includes u ''onedrive.live.com'' \<or> str_includes u ''onedrive.aspx''
        then ''onedrive''
      else if str_includes u ''teams.live.com'' \<or> str_includes u ''teams.microsoft.com''
        then ''teams''
      else if str_includes u ''&ithint=onenote'' \<or> str_includes u ''onenote.com'' then ''onenote''
      else ''office'')"

section \<open>Event traces\<close>

text \<open>
  The events of all windows arrive one at a time, each with the id of its window, in any
  interleaving.
\<close>

fun dispatch :: "(nat \<times> event) list \<Rightarrow> world \<Rightarrow> world" where
  "dispatch [] w = w"
| "dispatch ((nativeId, ev) # evs) w = dispatch evs (handleEvent nativeId ev w)"

text \<open>
  An event that finds the geometry of its window transient or leaves geometry alone: a resize
  or a move delivered while the native window is maximized or fullscreen, and every other
  event but \<open>closed\<close>.
\<close>

fun geometryFrozen :: "event \<Rightarrow> bool" where
  "geometryFrozen (Resize window) = (nativeMaximized window \<or> nativeFullScreen window)"
| "geometryFrozen (Move window) = (nativeMaximized window \<or> nativeFullScreen window)"
| "geometryFrozen Closed = False"
| "geometryFrozen ev = True"

section \<open>The classifier as the specification words it\<close>

text \<open>
  The ordered rules of the specification, the first match winning and \<open>home\<close> otherwise.
  \<open>classify_spec\<close> follows the specification: the rules are tried on the address, and the
  file-extension patterns on the title as well.
\<close>

definition appTypeRules :: "(string list \<times> string) list" where
  "appTypeRules =
     [([''word'', ''.docx''], ''word''),
      ([''excel'', ''.xlsx''], ''excel''),
      ([''powerpoint'', ''.pptx''], ''powerpoint''),
      ([''outlook''], ''outlook''),
      ([''onedrive''], ''onedrive''),
      ([''onenote''], ''onenote''),
      ([''teams''], ''teams'')]"

fun firstMatch :: "(string list \<times> string) list \<Rightarrow> (string \<Rightarrow> bool) \<Rightarrow> string" where
  "firstMatch [] hit = ''home''"
| "firstMatch ((patterns, app) # rules) hit =
     (if list_ex hit patterns then app else firstMatch rules hit)"

definition classify_spec :: "string \<Rightarrow> string \<Rightarrow> string" where
  "classify_spec u title =
     firstMatch appTypeRules
       (\<lambda>p. str_includes (toLowerCase u) p \<or> (startsWith p ''.'' \<and> str_includes title p))"

section \<open>Reading the session file\<close>

text \<open>
  The window records \<open>restoreSession\<close> finds in the session file: none when the file is
  missing, is not JSON, or holds no array under \<open>windows\<close>.
\<close>

definition savedWindows :: "world \<Rightarrow> json list option" where
  "savedWindows w =
     (case sessionFile w of
        Some (Doc sessionData) \<Rightarrow>
          (case getProp sessionData ''windows'' of
             Inr (Some (JArr windows)) \<Rightarrow> Some windows
           | _ \<Rightarrow> None)
      | _ \<Rightarrow> None)"

section \<open>Runs of the main process\<close>

text \<open>
  What can happen to the state, one action at a time: a call of \<open>createWindow\<close> by any
  of its callers, the \<open>ready\<close> handler, a restore timer firing, an event of a window,
  \<open>before-quit\<close> (the handler of main.js, then that of sessionManager.js), the autosave
  tick and a change of a setting. Where a window is constructed the action carries the id
  Electron gives it.
\<close>

datatype action =
    CreateWindow nat options
  | AppReady int nat nat
  | TimerFires nat
  | WindowEvent nat event
  | BeforeQuit int "(nat \<times> native) list"
  | Autosave int "(nat \<times> native) list"
  | SetValue string json


text \<open>The ids of the windows constructed so far.\<close>

definition usedIds :: "world \<Rightarrow> nat list" where
  "usedIds w = map bw_id (browserWindows w)"

text \<open>
  Electron numbers the windows of a process and never gives an id a second time, not even
  after the window is closed: an action whose id was given before cannot occur
  (\<open>None\<close>).
\<close>

fun step :: "env \<Rightarrow> action \<Rightarrow> world \<Rightarrow> world option" where
  "step e (CreateWindow nativeId opts) w =
     (if nativeId \<in> set (usedIds w) then None
      else Some (snd (createWindow e nativeId opts w)))"
| "step e (AppReady now nativeId splashId) w =
     (if nativeId \<in> set (usedIds w) \<or> splashId \<in> set (usedIds w) \<or> nativeId = splashId then None
      else Some (snd (ready e now nativeId splashId w)))"
| "step e (TimerFires nativeId) w =
     (if nativeId \<in> set (usedIds w) then None
      else Some (fireTimers e [nativeId] w))"
| "step e (WindowEvent nativeId ev) w = Some (handleEvent nativeId ev w)"
| "step e (BeforeQuit now allWindows) w =
     Some (sessionManager_beforeQuit now allWindows (main_beforeQuit now allWindows w))"
| "step e (Autosave now allWindows) w = Some (autosave now allWindows w)"
| "step e (SetValue key v) w = Some (w\<lparr>settings := setValue (settings w) key v\<rparr>)"

fun run :: "env \<Rightarrow> action list \<Rightarrow> world \<Rightarrow> world option" where
  "run e [] w = Some w"
| "run e (a # acts) w = (case step e a w of None \<Rightarrow> None | Some w' \<Rightarrow> run e acts w')"

section \<open>The shape of a window record\<close>

text \<open>
  The \<open>WindowMeta\<close> typedef of windowManager.js, as far as the restore path depends on it:
  \<open>appType\<close> and \<open>accountType\<close> are strings and \<open>bounds\<close> is an object.
\<close>

fun isString :: "json \<Rightarrow> bool" where
  "isString (JStr s) = True"
| "isString v = False"

fun isObject :: "json \<Rightarrow> bool" where
  "isObject (JObj kvs) = True"
| "isObject v = False"

definition typedMeta :: "wmeta \<Rightarrow> bool" where
  "typedMeta meta = (isString (appType meta) \<and> isString (accountType meta) \<and> isObject (bounds meta))"

section \<open>Sample inputs\<close>

text \<open>
  A personal account with session restore switched on, one managed Word window, and the
  native states a window can be found in. No sample converts a string to a number.
\<close>

definition sampleStore :: store where
  "sampleStore =
     map_of [(''enterprise-or-normal'', JStr ''?auth=1''), (''custompage'', JStr ''home''),
             (''restoreSession'', JBool True), (''useragentstring'', JStr ''Mozilla/5.0'')]"

definition sampleEnv :: env where
  "sampleEnv =
     \<lparr>defaultBounds = JObj [(''width'', JNum 1363), (''height'', JNum 799)],
      stringToNumber = (\<lambda>s. None),
      optimalUserAgent = ''Mozilla/5.0'',
      cli_startupApp = None,
      cli_accountType = None\<rparr>"

definition sampleMeta :: wmeta where
  "sampleMeta =
     \<lparr>winId = 1, appType = JStr ''word'', accountType = JStr ''personal'',
      url = Some (JStr ''https://microsoft365.com/launch/word?auth=1''),
      bounds = rectJson \<lparr>rect_x = 100, rect_y = 100, rect_width = 800, rect_height = 600\<rparr>,
      isMaximized = JBool False, isFullScreen = False\<rparr>"

definition sampleWorld :: world where
  "sampleWorld =
     \<lparr>settings = sampleStore,
      managedWindows = [1 \<mapsto> sampleMeta],
      windowIdCounter = 1,
      sessionFile = None,
      timers = [],
      browserWindows = [],
      isQuitting = False\<rparr>"

definition fullScreenWindow :: native where
  "fullScreenWindow =
     \<lparr>getBounds = \<lparr>rect_x = 0, rect_y = 0, rect_width = 1920, rect_height = 1080\<rparr>,
      nativeMaximized = False, nativeFullScreen = True,
      getURL = ''https://word.cloud.microsoft/open/Report.docx''\<rparr>"

definition maximizedWindow :: native where
  "maximizedWindow =
     \<lparr>getBounds = \<lparr>rect_x = 0, rect_y = 27, rect_width = 1920, rect_height = 1053\<rparr>,
      nativeMaximized = True, nativeFullScreen = False,
      getURL = ''https://word.cloud.microsoft/open/Report.docx''\<rparr>"

definition outlookOptions :: options where
  "outlookOptions =
     \<lparr>o_url = Some (JStr ''https://outlook.live.com/mail/''), o_appType = Some (JStr ''outlook''),
      o_accountType = None, o_bounds = None, o_isMaximized = None, o_show = None\<rparr>"

text \<open>A session document holding the sample window, under the given timestamp.\<close>

definition sessionDoc :: "json \<Rightarrow> json" where
  "sessionDoc timestamp =
     JObj [(''version'', JNum 1), (''timestamp'', timestamp),
           (''windows'', JArr [metaJson sampleMeta])]"

text \<open>The same surroundings, started with \<open>--app word\<close>.\<close>

definition wordEnv :: env where
  "wordEnv = sampleEnv\<lparr>cli_startupApp := Some (JStr ''word'')\<rparr>"

text \<open>The state of a process that has just started and finds the given session file.\<close>

definition freshStart :: "content option \<Rightarrow> world" where
  "freshStart saved =
     \<lparr>settings = sampleStore, managedWindows = Map.empty, windowIdCounter = 0,
      sessionFile = saved, timers = [], browserWindows = [], isQuitting = False\<rparr>"

section \<open>Partition resolver\<close>

lemma js_or_work:
  "js_or a (JStr d) = JStr ''work'' \<longleftrightarrow>
     a = Some (JStr ''work'') \<or> (\<not> truthyV a \<and> d = ''work'')"
  by (cases a) (auto simp: js_or_def truthyV_def)

lemma getPartition_default_account:
  "getPartition st (Some (dflt a
      (JStr (if getValue st ''enterprise-or-normal'' = Some (JStr ''?auth=2'')
             then ''work'' else ''personal'')))) = getPartition st a"
  by (cases a) (simp_all add: getPartition_def js_or_def dflt_def getAccountType_def)

text \<open>
  C1. \<open>getPartition\<close> answers \<open>persist:work\<close> exactly when the account type is the string
  \<open>work\<close>, given explicitly or, for a missing or falsy argument, derived from the setting
  \<open>enterprise-or-normal\<close>; every other input, unknown ones included, gets
  \<open>persist:personal\<close>. Hence the partitions of a work window and of a personal window
  always differ, and \<open>createWindow\<close> constructs its window on the partition so resolved.
\<close>

theorem getPartition_by_account_type:
  "getPartition st a =
     (if a = Some (JStr ''work'') \<or>
         (\<not> truthyV a \<and> getValue st ''enterprise-or-normal'' = Some (JStr ''?auth=2''))
      then ''persist:work'' else ''persist:personal'')
   \<and> getPartition st (Some (JStr ''work'')) \<noteq> getPartition st' (Some (JStr ''personal''))
   \<and> (let w' = snd (createWindow e nativeId opts w) in
        bw_partition (last (browserWindows w')) =
          Some (getPartition (settings w) (o_accountType opts)))"
proof -
  have resolved: "getPartition st a =
     (if a = Some (JStr ''work'') \<or>
         (\<not> truthyV a \<and> getValue st ''enterprise-or-normal'' = Some (JStr ''?auth=2''))
      then ''persist:work'' else ''persist:personal'')"
    by (simp add: getPartition_def Let_def js_or_work getAccountType_def)
  have apart: "getPartition st (Some (JStr ''work'')) \<noteq> getPartition st' (Some (JStr ''personal''))"
    by (simp add: getPartition_def js_or_def)
  have constructed: "(let w' = snd (createWindow e nativeId opts w) in
        bw_partition (last (browserWindows w')) =
          Some (getPartition (settings w) (o_accountType opts)))"
    unfolding createWindow_def Let_def getPartition_default_account
    by (simp split: sum.splits)
  show ?thesis using resolved apart constructed by blast
qed

theorem getPartition_by_account_type_witness:
  "getPartition (map_of [(''enterprise-or-normal'', JStr ''?auth=2'')]) None = ''persist:work''
   \<and> getPartition (map_of [(''enterprise-or-normal'', JStr ''?auth=2'')]) (Some (JStr ''guest''))
       = ''persist:personal''
   \<and> getPartition (map_of [(''enterprise-or-normal'', JNum 2)]) (Some (JStr ''''))
       = ''persist:personal''"
  using getPartition_by_account_type
          [where st = "map_of [(''enterprise-or-normal'', JStr ''?auth=2'')]" and a = None]
        getPartition_by_account_type
          [where st = "map_of [(''enterprise-or-normal'', JStr ''?auth=2'')]"
             and a = "Some (JStr ''guest'')"]
        getPartition_by_account_type
          [where st = "map_of [(''enterprise-or-normal'', JNum 2)]" and a = "Some (JStr '''')"]
  by (simp add: truthyV_def getValue_def)

section \<open>App-type classifier\<close>

text \<open>
  C7, as amended. \<open>detectAppType\<close> is a function of the address alone: it lowers the case
  of the address, tries the ordered substring rules word/.docx, excel/.xlsx,
  powerpoint/.pptx, outlook, onedrive, onenote, teams, takes the first that matches and
  answers \<open>home\<close> when none does. The title of the document is no input of it. On the two
  addresses of the specification it answers \<open>outlook\<close> and \<open>home\<close>.
\<close>

theorem detectAppType_first_match:
  "detectAppType u = firstMatch appTypeRules (str_includes (toLowerCase u))
   \<and> detectAppType ''https://x/outlook'' = ''outlook''
   \<and> detectAppType ''https://unknown.example'' = ''home''"
  by (simp add: detectAppType_def appTypeRules_def Let_def toLowerCase_def lowerChar_def)

theorem detectAppType_first_match_witness:
  "firstMatch appTypeRules (str_includes (toLowerCase ''https://OneDrive.live.com/Q3.DOCX''))
     = ''word''"
  using detectAppType_first_match [of "''https://OneDrive.live.com/Q3.DOCX''"]
  by (simp add: detectAppType_def Let_def toLowerCase_def lowerChar_def)

text \<open>
  C7 as stated fails. With the title \<open>slides.pptx\<close> the classifier of the specification
  answers \<open>powerpoint\<close>, \<open>detectAppType\<close> has no title to look at and answers \<open>home\<close>. The
  classifier of main.js does read the title, but it answers \<open>office\<close>, not \<open>home\<close>, when
  no rule matches, and \<open>office\<close> on the address \<open>https://x/outlook\<close> too.
\<close>

theorem classifier_title_counterexample:
  "detectAppType ''https://x/'' = ''home''
   \<and> classify_spec ''https://x/'' ''slides.pptx'' = ''powerpoint''
   \<and> currentApp ''https://x/outlook'' [] = ''office''
   \<and> currentApp ''https://unknown.example'' ''Untitled'' = ''office''"
  by (simp add: detectAppType_def classify_spec_def appTypeRules_def currentApp_def Let_def
        toLowerCase_def lowerChar_def)

section \<open>Saving with session restore switched off\<close>

text \<open>
  C9. When the setting \<open>restoreSession\<close> is anything but the boolean \<open>true\<close>,
  \<open>saveSession\<close> returns the state it was given, whatever the windows are: nothing is read
  from them and the session file is not touched. The same holds for the \<open>before-quit\<close>
  handler of sessionManager.js and for the autosave timer; the \<open>before-quit\<close> handler of
  main.js sets \<open>isQuitting\<close> and changes nothing else.
\<close>

theorem saveSession_disabled:
  assumes "getValue (settings w) ''restoreSession'' \<noteq> Some (JBool True)"
  shows "saveSession now allWindows w = w
       \<and> sessionManager_beforeQuit now allWindows w = w
       \<and> autosave now allWindows w = w
       \<and> main_beforeQuit now allWindows w = w\<lparr>isQuitting := True\<rparr>
       \<and> sessionFile (main_beforeQuit now allWindows w) = sessionFile w"
  using assms
  by (simp add: saveSession_def sessionManager_beforeQuit_def autosave_def main_beforeQuit_def)

theorem saveSession_disabled_witness:
  "sessionFile (saveSession 1700000000000 [(1, maximizedWindow)]
      (sampleWorld\<lparr>settings := setValue sampleStore ''restoreSession'' (JStr ''true''),
                   sessionFile := Some (Doc (sessionDoc (JNum 1000)))\<rparr>))
     = Some (Doc (sessionDoc (JNum 1000)))"
  using saveSession_disabled
    [where w = "sampleWorld\<lparr>settings := setValue sampleStore ''restoreSession'' (JStr ''true''),
                            sessionFile := Some (Doc (sessionDoc (JNum 1000)))\<rparr>"
       and now = 1700000000000 and allWindows = "[(1, maximizedWindow)]"]
  by (simp add: sampleWorld_def setValue_def getValue_def)

section \<open>Cached bounds\<close>

lemma updateMeta_other:
  "j \<noteq> i \<Longrightarrow> managedWindows (updateMeta j f w) i = managedWindows w i"
  by (simp add: updateMeta_def split: option.splits)

lemma handleEvent_other:
  "j \<noteq> i \<Longrightarrow> managedWindows (handleEvent j ev w) i = managedWindows w i"
  by (cases ev) (simp_all add: updateMeta_other)

lemma handleEvent_frozen:
  assumes "managedWindows w i = Some meta" and "geometryFrozen ev"
  shows "\<exists>meta'. managedWindows (handleEvent i ev w) i = Some meta' \<and> bounds meta' = bounds meta"
  using assms by (cases ev) (auto simp: updateMeta_def)

lemma dispatch_frozen:
  assumes "managedWindows w i = Some meta"
    and "\<forall>p \<in> set evs. fst p = i \<longrightarrow> geometryFrozen (snd p)"
  shows "\<exists>meta'. managedWindows (dispatch evs w) i = Some meta' \<and> bounds meta' = bounds meta"
  using assms
proof (induction evs arbitrary: w meta)
  case Nil
  then show ?case by simp
next
  case (Cons p evs)
  obtain j ev where p: "p = (j, ev)" by (cases p)
  show ?case
  proof (cases "j = i")
    case True
    with Cons.prems p have "geometryFrozen ev" by simp
    from handleEvent_frozen [OF Cons.prems(1) this]
    obtain m1 where m1: "managedWindows (handleEvent i ev w) i = Some m1" "bounds m1 = bounds meta"
      by blast
    from Cons.IH [OF m1(1)] Cons.prems(2) m1(2) p True show ?thesis by simp
  next
    case False
    then have "managedWindows (handleEvent j ev w) i = Some meta"
      using Cons.prems(1) by (simp add: handleEvent_other)
    from Cons.IH [OF this] Cons.prems(2) p show ?thesis by simp
  qed
qed

text \<open>
  C3. A resize or a move delivered while the native window is maximized or fullscreen
  leaves the whole state as it was. Along any run of events, of this window and of others,
  in which this window is not closed and is resized or moved only while maximized or
  fullscreen, the cached bounds of its record stay what they were; so they do from before a
  \<open>maximize\<close> event to after the \<open>unmaximize\<close> event that follows such a run.
\<close>

theorem bounds_frozen_while_maximized:
  assumes "managedWindows w i = Some meta"
    and "\<forall>p \<in> set evs. fst p = i \<longrightarrow> geometryFrozen (snd p)"
    and "nativeMaximized window \<or> nativeFullScreen window"
  shows "handleEvent i (Resize window) w = w \<and> handleEvent i (Move window) w = w
       \<and> map_option bounds (managedWindows (dispatch evs w) i) = Some (bounds meta)
       \<and> map_option bounds
           (managedWindows (dispatch ((i, Maximize) # evs @ [(i, Unmaximize)]) w) i)
          = Some (bounds meta)"
proof -
  have still: "handleEvent i (Resize window) w = w \<and> handleEvent i (Move window) w = w"
    using assms(3) by auto
  have run: "map_option bounds (managedWindows (dispatch evs w) i) = Some (bounds meta)"
    using dispatch_frozen [OF assms(1,2)] by auto
  have "\<forall>p \<in> set ((i, Maximize) # evs @ [(i, Unmaximize)]). fst p = i \<longrightarrow> geometryFrozen (snd p)"
    using assms(2) by auto
  from dispatch_frozen [OF assms(1) this]
  have cycle: "map_option bounds
      (managedWindows (dispatch ((i, Maximize) # evs @ [(i, Unmaximize)]) w) i) = Some (bounds meta)"
    by auto
  show ?thesis using still run cycle by blast
qed

theorem bounds_frozen_while_maximized_witness:
  "map_option bounds
     (managedWindows
        (dispatch [(1, Maximize), (1, Resize maximizedWindow), (2, Closed),
                   (1, Move maximizedWindow), (1, Unmaximize)] sampleWorld) 1)
     = Some (rectJson \<lparr>rect_x = 100, rect_y = 100, rect_width = 800, rect_height = 600\<rparr>)"
  using bounds_frozen_while_maximized
    [where w = sampleWorld and i = 1 and meta = sampleMeta and window = maximizedWindow
       and evs = "[(1, Resize maximizedWindow), (2, Closed), (1, Move maximizedWindow)]"]
  by (simp add: sampleWorld_def sampleMeta_def maximizedWindow_def)

section \<open>Session state\<close>

lemma getSessionState_of_window:
  assumes "reg i = Some meta"
  shows "getSessionState [(i, window)] reg =
    [meta\<lparr>bounds := (if nativeMaximized window then bounds meta else rectJson (getBounds window)),
          isMaximized := JBool (nativeMaximized window),
          isFullScreen := nativeFullScreen window,
          url := Some (JStr (getURL window))\<rparr>]"
  using assms by simp

lemma getSessionState_fullscreen:
  assumes "reg i = Some meta" and "\<not> nativeMaximized window" and "nativeFullScreen window"
  shows "map bounds (getSessionState [(i, window)] reg) = [rectJson (getBounds window)]"
  using assms by simp

text \<open>
  C4. The claim holds for a maximized window and fails for a fullscreen one: the record of a
  window that is fullscreen and not maximized gets the live rectangle, here the whole
  screen, in place of the cached bounds, although the resize handler treats the same
  rectangle as transient.
\<close>

theorem getSessionState_fullscreen_bounds:
  "map bounds (getSessionState [(1, fullScreenWindow)] (managedWindows sampleWorld))
     = [rectJson \<lparr>rect_x = 0, rect_y = 0, rect_width = 1920, rect_height = 1080\<rparr>]
   \<and> map bounds (getSessionState [(1, maximizedWindow)] (managedWindows sampleWorld))
     = [rectJson \<lparr>rect_x = 100, rect_y = 100, rect_width = 800, rect_height = 600\<rparr>]
   \<and> handleEvent 1 (Resize fullScreenWindow) sampleWorld = sampleWorld"
  by (simp add: sampleWorld_def sampleMeta_def fullScreenWindow_def maximizedWindow_def)

theorem getSessionState_fullscreen_bounds_witness:
  "map bounds (getSessionState [(1, fullScreenWindow)] (managedWindows sampleWorld))
     \<noteq> [bounds sampleMeta]"
  using getSessionState_fullscreen_bounds
  by (simp add: sampleMeta_def rectJson_def)

section \<open>Registration\<close>







lemma saveSession_frame:
  "managedWindows (saveSession now allWindows w) = managedWindows w
   \<and> usedIds (saveSession now allWindows w) = usedIds w"
  by (simp add: saveSession_def usedIds_def Let_def)






text \<open>
  What a completed call stores, in any state. \<open>createWindow\<close> does not look for an earlier
  record itself: in a state outside every run, where the id already holds one, the record
  is replaced.
\<close>

lemma createWindow_done:
  assumes "createWindow e nativeId opts w = (None, w')"
  shows "\<exists>address.
    metaUrl (settings w) (dflt (o_url opts) JNull) (dflt (o_appType opts) (JStr ''home''))
      (dflt (o_accountType opts) (JStr (getAccountType (settings w)))) = Inr address
    \<and> managedWindows w' = (managedWindows w)(nativeId \<mapsto>
         \<lparr>winId = Suc (windowIdCounter w),
          appType = dflt (o_appType opts) (JStr ''home''),
          accountType = dflt (o_accountType opts) (JStr (getAccountType (settings w))),
          url = address,
          bounds = js_or (Some (dflt (o_bounds opts) JNull)) (defaultBounds e),
          isMaximized = dflt (o_isMaximized opts) (JBool False),
          isFullScreen = False\<rparr>)
    \<and> windowIdCounter w' = Suc (windowIdCounter w)"
  using assms unfolding createWindow_def Let_def getAccountType_def [symmetric]
  by (auto split: sum.splits split del: if_split)

lemma createWindow_replaces:
  "map_option appType (managedWindows sampleWorld 1) = Some (JStr ''word'')
   \<and> map_option appType
        (managedWindows (snd (createWindow sampleEnv 1 outlookOptions sampleWorld)) 1)
       = Some (JStr ''outlook'')
   \<and> 1 \<notin> set (usedIds sampleWorld)"
  by (simp add: createWindow_def Let_def outlookOptions_def dflt_def metaUrl_def loadUrl_def
        sampleWorld_def sampleMeta_def usedIds_def)

section \<open>Stale sessions\<close>

text \<open>
  C5, as amended. When session restore is switched on and the session file parses to a
  document with an array under \<open>windows\<close> and a numeric timestamp more than 24 hours
  before now, \<open>restoreSession\<close> answers false, sets no timer and constructs no window (the
  state changes in the session file only), and the session file is deleted.
\<close>

theorem stale_session_discarded:
  assumes "getValue (settings w) ''restoreSession'' = Some (JBool True)"
    and "sessionFile w = Some (Doc sessionData)"
    and "getProp sessionData ''windows'' = Inr (Some (JArr windows))"
    and "field sessionData ''timestamp'' = Some (JNum t)"
    and "now - t > 24 * 60 * 60 * 1000"
  shows "restoreSession e now w = (False, w\<lparr>sessionFile := None\<rparr>)"
  using assms
  by (simp add: restoreSession_def toNumber_def clearSession_def maxAge_def)

theorem stale_session_discarded_witness:
  "restoreSession sampleEnv 86401001 (sampleWorld\<lparr>sessionFile := Some (Doc (sessionDoc (JNum 1000)))\<rparr>)
     = (False, sampleWorld\<lparr>sessionFile := None\<rparr>)"
  using stale_session_discarded
    [where w = "sampleWorld\<lparr>sessionFile := Some (Doc (sessionDoc (JNum 1000)))\<rparr>"
       and sessionData = "sessionDoc (JNum 1000)" and windows = "[metaJson sampleMeta]"
       and t = 1000 and now = 86401001 and e = sampleEnv]
  by (simp add: sampleWorld_def sampleStore_def getValue_def sessionDoc_def field_def)

text \<open>
  C5 as stated fails: with session restore switched off, the same stale file stays on disk.
\<close>

theorem stale_session_kept_when_disabled:
  "restoreSession sampleEnv 86401001
     (sampleWorld\<lparr>settings := setValue sampleStore ''restoreSession'' (JBool False),
                  sessionFile := Some (Doc (sessionDoc (JNum 1000)))\<rparr>)
   = (False, sampleWorld\<lparr>settings := setValue sampleStore ''restoreSession'' (JBool False),
                         sessionFile := Some (Doc (sessionDoc (JNum 1000)))\<rparr>)"
  by (simp add: restoreSession_def sampleWorld_def setValue_def getValue_def)

section \<open>Timestamps that are not numbers\<close>

text \<open>
  C10, as amended. When session restore is switched on and the session file parses to a
  document with a non-empty array under \<open>windows\<close>, and the timestamp is missing or is a
  value whose conversion to a number is NaN, the staleness test is false whatever the time
  is: \<open>restoreSession\<close> answers true, sets one timer per window record, 100 milliseconds
  apart, and leaves the file alone. A missing timestamp converts to NaN.
\<close>

theorem nan_timestamp_restored:
  assumes "getValue (settings w) ''restoreSession'' = Some (JBool True)"
    and "sessionFile w = Some (Doc sessionData)"
    and "getProp sessionData ''windows'' = Inr (Some (JArr windows))"
    and "windows \<noteq> []"
    and "toNumber (stringToNumber e) (field sessionData ''timestamp'') = Inr None"
  shows "restoreSession e now w =
           (True, w\<lparr>timers := timers w @
              map (\<lambda>(index, windowMeta). (index * 100, windowMeta)) (enumerate 0 windows)\<rparr>)
         \<and> toNumber (stringToNumber e) None = Inr None"
  using assms
  by (simp add: restoreSession_def toNumber_def)

theorem nan_timestamp_restored_witness:
  "restoreSession sampleEnv 1700000000000
     (sampleWorld\<lparr>sessionFile := Some (Doc (JObj [(''windows'', JArr [metaJson sampleMeta])]))\<rparr>)
   = (True, sampleWorld\<lparr>sessionFile := Some (Doc (JObj [(''windows'', JArr [metaJson sampleMeta])])),
                        timers := [(0, metaJson sampleMeta)]\<rparr>)"
  using nan_timestamp_restored
    [where w = "sampleWorld\<lparr>sessionFile := Some (Doc (JObj [(''windows'', JArr [metaJson sampleMeta])]))\<rparr>"
       and sessionData = "JObj [(''windows'', JArr [metaJson sampleMeta])]"
       and windows = "[metaJson sampleMeta]" and now = 1700000000000 and e = sampleEnv]
  by (simp add: sampleWorld_def sampleStore_def getValue_def field_def toNumber_def)

text \<open>
  C10 as stated fails for a timestamp that is not a number and yet converts to one:
  \<open>null\<close> converts to 0, the session counts as stale, and the file is deleted.
\<close>

theorem null_timestamp_is_stale:
  "restoreSession sampleEnv 1700000000000
     (sampleWorld\<lparr>sessionFile := Some (Doc (sessionDoc JNull))\<rparr>)
   = (False, sampleWorld\<lparr>sessionFile := None\<rparr>)"
  by (simp add: restoreSession_def sampleWorld_def sampleStore_def getValue_def sessionDoc_def
        field_def toNumber_def clearSession_def maxAge_def)

section \<open>Startup without a session\<close>

lemma restoreSession_no_session:
  assumes "savedWindows w = None \<or> savedWindows w = Some []"
  shows "restoreSession e now w = (False, w) \<or> restoreSession e now w = (False, w\<lparr>sessionFile := None\<rparr>)"
proof (cases "getValue (settings w) ''restoreSession'' = Some (JBool True)")
  case False
  then show ?thesis by (simp add: restoreSession_def)
next
  case on: True
  show ?thesis
  proof (cases "sessionFile w")
    case None
    with on show ?thesis by (simp add: restoreSession_def)
  next
    case (Some c)
    show ?thesis
    proof (cases c)
      case Unparseable
      with Some on show ?thesis by (simp add: restoreSession_def)
    next
      case (Doc sessionData)
      show ?thesis
      proof (cases "savedWindows w")
        case None
        with Some Doc on show ?thesis
          by (auto simp: restoreSession_def savedWindows_def
                split: sum.splits option.splits json.splits)
      next
        case (Some windows)
        with assms have empty: "windows = []" by simp
        from Some \<open>sessionFile w = Some c\<close> Doc
        have arr: "getProp sessionData ''windows'' = Inr (Some (JArr []))"
          unfolding empty
          by (auto simp: savedWindows_def split: sum.splits option.splits json.splits)
        with \<open>sessionFile w = Some c\<close> Doc on show ?thesis
          by (auto simp: restoreSession_def clearSession_def split: sum.splits option.splits)
      qed
    qed
  qed
qed

lemma main_createWindow_home:
  assumes "toStr (js_or (getValue (settings w) ''custompage'') (JStr ''home'')) = Inr page"
    and "toStrV (getValue (settings w) ''enterprise-or-normal'') = Inr auth"
    and "\<not> truthyV (cli_startupApp e)"
  shows "main_createWindow e nativeId splashId w =
    (None, w\<lparr>browserWindows := browserWindows w @
       [\<lparr>bw_id = nativeId, bw_bounds = None,
         bw_partition = Some (if getValue (settings w) ''enterprise-or-normal'' = Some (JStr ''?auth=1'')
                              then ''persist:personal'' else ''persist:work''),
         bw_autoHideMenuBar = (getValue (settings w) ''autohide-menubar'' = Some (JStr ''true'')),
         bw_loadURL = Some (Some (JStr (''https://microsoft365.com/'' @ page @ ''/'' @ auth)),
                            Some (js_or (getValue (settings w) ''useragentstring'')
                                    (JStr (optimalUserAgent e)))),
         bw_onReady = None\<rparr>,
        \<lparr>bw_id = splashId, bw_bounds = None, bw_partition = None, bw_autoHideMenuBar = False,
         bw_loadURL = Some (Some (JStr ''https://agam778.github.io/MS-365-Electron/loading''), None),
         bw_onReady = None\<rparr>]\<rparr>)"
  using assms by (simp add: main_createWindow_def Let_def)

text \<open>
  C6, as amended. When the session file is missing, is not JSON, holds no array under
  \<open>windows\<close> or holds an empty one, \<open>restoreSession\<close> answers false, whatever the
  setting, and sets no timer; the \<open>ready\<close> handler then calls \<open>createWindow\<close> of main.js
  once. Provided no startup app was given on the command line (and the two settings print
  as strings), that call constructs the main window, on the partition of the configured
  account and loading the configured home address, together with its splash window, and
  nothing else; the registry of windowManager.js is not involved.
\<close>

theorem ready_without_session:
  assumes "savedWindows w = None \<or> savedWindows w = Some []"
    and "toStr (js_or (getValue (settings w) ''custompage'') (JStr ''home'')) = Inr page"
    and "toStrV (getValue (settings w) ''enterprise-or-normal'') = Inr auth"
    and "\<not> truthyV (cli_startupApp e)"
  shows "fst (restoreSession e now w) = False
     \<and> (\<exists>w'. ready e now nativeId splashId w = (None, w')
          \<and> browserWindows w' = browserWindows w @
               [\<lparr>bw_id = nativeId, bw_bounds = None,
                 bw_partition =
                   Some (if getValue (settings w) ''enterprise-or-normal'' = Some (JStr ''?auth=1'')
                         then ''persist:personal'' else ''persist:work''),
                 bw_autoHideMenuBar =
                   (getValue (settings w) ''autohide-menubar'' = Some (JStr ''true'')),
                 bw_loadURL =
                   Some (Some (JStr (''https://microsoft365.com/'' @ page @ ''/'' @ auth)),
                         Some (js_or (getValue (settings w) ''useragentstring'')
                                 (JStr (optimalUserAgent e)))),
                 bw_onReady = None\<rparr>,
                \<lparr>bw_id = splashId, bw_bounds = None, bw_partition = None,
                 bw_autoHideMenuBar = False,
                 bw_loadURL =
                   Some (Some (JStr ''https://agam778.github.io/MS-365-Electron/loading''), None),
                 bw_onReady = None\<rparr>]
          \<and> timers w' = timers w
          \<and> managedWindows w' = managedWindows w)"
proof -
  from restoreSession_no_session [OF assms(1), of e now]
  consider "restoreSession e now w = (False, w)"
    | "restoreSession e now w = (False, w\<lparr>sessionFile := None\<rparr>)"
    by blast
  then show ?thesis
  proof cases
    case 1
    then show ?thesis
      using main_createWindow_home [OF assms(2,3,4), of nativeId splashId]
      by (simp add: ready_def)
  next
    case 2
    have "toStr (js_or (getValue (settings (w\<lparr>sessionFile := None\<rparr>)) ''custompage'') (JStr ''home''))
            = Inr page"
      and "toStrV (getValue (settings (w\<lparr>sessionFile := None\<rparr>)) ''enterprise-or-normal'') = Inr auth"
      using assms(2,3) by simp_all
    from main_createWindow_home [OF this assms(4), of nativeId splashId] 2
    show ?thesis by (simp add: ready_def)
  qed
qed

theorem ready_without_session_witness:
  "map bw_loadURL (browserWindows (snd (ready sampleEnv 1700000000000 2 3 sampleWorld)))
     = [Some (Some (JStr ''https://microsoft365.com/home/?auth=1''), Some (JStr ''Mozilla/5.0'')),
        Some (Some (JStr ''https://agam778.github.io/MS-365-Electron/loading''), None)]"
  using ready_without_session
    [where w = sampleWorld and e = sampleEnv and page = "''home''" and auth = "''?auth=1''"
       and now = 1700000000000 and nativeId = 2 and splashId = 3]
  by (auto simp: sampleWorld_def sampleStore_def sampleEnv_def savedWindows_def getValue_def
        js_or_def toStrV_def truthyV_def)

text \<open>
  C6 as stated fails: started with \<open>--app word\<close> and no session file, the one main window
  loads the address of Word, not the configured home address.
\<close>

theorem startup_app_counterexample:
  "savedWindows sampleWorld = None
   \<and> map bw_loadURL (browserWindows (snd (ready wordEnv 1700000000000 2 3 sampleWorld)))
     = [Some (Some (JStr ''https://microsoft365.com/launch/word?auth=1''), Some (JStr ''Mozilla/5.0'')),
        Some (Some (JStr ''https://agam778.github.io/MS-365-Electron/loading''), None)]"
  by (simp add: ready_def restoreSession_def main_createWindow_def Let_def wordEnv_def
        sampleWorld_def sampleStore_def sampleEnv_def savedWindows_def getValue_def
        js_or_def toStrV_def truthyV_def getAppUrl_def getAccountType_def APP_URLS_def
        urlOf_def toLowerCase_def lowerChar_def)

section \<open>Round trip of a session\<close>

lemma isString_toStr: "isString v \<Longrightarrow> \<exists>s. toStr v = Inr s"
  by (cases v) simp_all

lemma isObject_truthy: "isObject v \<Longrightarrow> truthy v"
  by (cases v) simp_all

lemma metaUrl_typed:
  assumes "isString appT" and "isString accT"
  shows "\<exists>address. metaUrl st u appT accT = Inr address"
proof -
  obtain name where name: "appT = JStr name" using assms(1) by (cases appT) simp_all
  obtain s where s: "accT = JStr s" using assms(2) by (cases accT) simp_all
  have "\<exists>k. toStr (js_or (Some accT) (JStr (getAccountType st))) = Inr k"
    by (simp add: js_or_def s)
  then show ?thesis
    by (auto simp: metaUrl_def getAppUrl_def Let_def name)
qed

lemma createWindow_registered:
  assumes "metaUrl (settings w) (dflt (o_url opts) JNull) (dflt (o_appType opts) (JStr ''home''))
             (dflt (o_accountType opts) (JStr (getAccountType (settings w)))) = Inr address"
  shows "managedWindows (snd (createWindow e nativeId opts w)) =
           (managedWindows w)(nativeId \<mapsto>
              \<lparr>winId = Suc (windowIdCounter w),
               appType = dflt (o_appType opts) (JStr ''home''),
               accountType = dflt (o_accountType opts) (JStr (getAccountType (settings w))),
               url = address,
               bounds = js_or (Some (dflt (o_bounds opts) JNull)) (defaultBounds e),
               isMaximized = dflt (o_isMaximized opts) (JBool False),
               isFullScreen = False\<rparr>)
    \<and> map bw_id (browserWindows (snd (createWindow e nativeId opts w)))
         = map bw_id (browserWindows w) @ [nativeId]
    \<and> timers (snd (createWindow e nativeId opts w)) = timers w"
proof (cases "loadUrl (settings w) (dflt (o_url opts) JNull)
                (dflt (o_accountType opts) (JStr (getAccountType (settings w))))")
  case (Inl err)
  with assms show ?thesis
    unfolding createWindow_def Let_def getAccountType_def [symmetric]
    by (simp split del: if_split)
next
  case (Inr target)
  with assms show ?thesis
    unfolding createWindow_def Let_def getAccountType_def [symmetric]
    by (simp split del: if_split)
qed

lemma metaJson_fields:
  assumes "url r = Some v"
  shows "getProp (metaJson r) ''url'' = Inr (Some v)"
    and "field (metaJson r) ''appType'' = Some (appType r)"
    and "field (metaJson r) ''accountType'' = Some (accountType r)"
    and "field (metaJson r) ''bounds'' = Some (bounds r)"
    and "field (metaJson r) ''isMaximized'' = Some (isMaximized r)"
  using assms by (simp_all add: metaJson_def field_def)

lemma restoreWindow_saved:
  assumes "typedMeta r" and "url r = Some (JStr u)"
  shows "\<exists>meta. managedWindows (snd (restoreWindow e a (metaJson r) w))
                   = (managedWindows w)(a \<mapsto> meta)
           \<and> appType meta = appType r \<and> accountType meta = accountType r
           \<and> bounds meta = bounds r \<and> isMaximized meta = isMaximized r"
    and "map bw_id (browserWindows (snd (restoreWindow e a (metaJson r) w)))
           = map bw_id (browserWindows w) @ [a]"
    and "timers (snd (restoreWindow e a (metaJson r) w)) = timers w"
proof -
  let ?opts = "\<lparr>o_url = Some (JStr u), o_appType = Some (appType r),
                 o_accountType = Some (accountType r), o_bounds = Some (bounds r),
                 o_isMaximized = Some (isMaximized r), o_show = Some (JBool True)\<rparr>"
  from assms(1) have str: "isString (appType r)" "isString (accountType r)"
    and obj: "truthy (bounds r)"
    by (simp_all add: typedMeta_def isObject_truthy)
  have call: "restoreWindow e a (metaJson r) w = createWindow e a ?opts w"
    by (simp add: restoreWindow_def metaJson_fields [OF assms(2)])
  from metaUrl_typed [OF str] obtain address where
    address: "metaUrl (settings w) (dflt (o_url ?opts) JNull) (dflt (o_appType ?opts) (JStr ''home''))
       (dflt (o_accountType ?opts) (JStr (getAccountType (settings w)))) = Inr address"
    by (auto simp: dflt_def)
  note registered = createWindow_registered [OF address, of e a]
  show "\<exists>meta. managedWindows (snd (restoreWindow e a (metaJson r) w))
                   = (managedWindows w)(a \<mapsto> meta)
           \<and> appType meta = appType r \<and> accountType meta = accountType r
           \<and> bounds meta = bounds r \<and> isMaximized meta = isMaximized r"
    unfolding call using registered obj
    by (simp add: dflt_def js_or_def) (intro exI conjI, rule refl, simp_all)
  show "map bw_id (browserWindows (snd (restoreWindow e a (metaJson r) w)))
           = map bw_id (browserWindows w) @ [a]"
    unfolding call using registered by simp
  show "timers (snd (restoreWindow e a (metaJson r) w)) = timers w"
    unfolding call using registered by simp
qed

lemma timers_in_order:
  "sort_key fst (map (\<lambda>(index, windowMeta). (index * 100, windowMeta)) (enumerate k ms))
     = map (\<lambda>(index, windowMeta). (index * 100, windowMeta)) (enumerate k (ms :: json list))"
proof (rule sort_key_id_if_sorted)
  have "map fst (map (\<lambda>(index, windowMeta). (index * 100, windowMeta)) (enumerate k ms))
          = map (\<lambda>i. i * 100) (map fst (enumerate k ms))"
    by (simp only: map_map comp_def case_prod_beta fst_conv)
  also have "\<dots> = map (\<lambda>i. i * 100) [k..<k + length ms]"
    by simp
  finally show "sorted (map fst (map (\<lambda>(index, windowMeta). (index * 100, windowMeta))
      (enumerate k ms)))"
    by (simp add: sorted_map sorted_wrt_iff_nth_less)
qed


lemma getSessionState_typed:
  assumes "\<forall>meta \<in> ran reg. typedMeta meta"
  shows "\<forall>r \<in> set (getSessionState allWindows reg). typedMeta r \<and> (\<exists>u. url r = Some (JStr u))"
proof (induction allWindows)
  case Nil
  then show ?case by simp
next
  case (Cons p allWindows)
  obtain nativeId window where p: "p = (nativeId, window)" by (cases p)
  show ?case
  proof (cases "reg nativeId")
    case None
    with Cons p show ?thesis by simp
  next
    case (Some meta)
    then have "typedMeta meta" using assms by (auto simp: ran_def)
    then show ?thesis
      using Cons p Some by (simp add: typedMeta_def rectJson_def)
  qed
qed

lemma fireTimers_restores:
  assumes "timers w = map (\<lambda>(index, windowMeta). (index * 100, windowMeta))
                        (enumerate k (map metaJson rs))"
    and "length ids = length rs"
    and "distinct ids"
    and "\<forall>r \<in> set rs. typedMeta r \<and> (\<exists>u. url r = Some (JStr u))"
  shows "timers (fireTimers e ids w) = []
    \<and> map bw_id (browserWindows (fireTimers e ids w)) = map bw_id (browserWindows w) @ ids
    \<and> (\<forall>j < length rs. \<exists>meta. managedWindows (fireTimers e ids w) (ids ! j) = Some meta
          \<and> appType meta = appType (rs ! j) \<and> accountType meta = accountType (rs ! j)
          \<and> bounds meta = bounds (rs ! j) \<and> isMaximized meta = isMaximized (rs ! j))
    \<and> (\<forall>i. i \<notin> set ids \<longrightarrow> managedWindows (fireTimers e ids w) i = managedWindows w i)"
  using assms
proof (induction ids arbitrary: rs k w)
  case Nil
  then show ?case by simp
next
  case (Cons a ids)
  from Cons.prems(2) obtain r rs' where rs: "rs = r # rs'" and len: "length ids = length rs'"
    by (cases rs) simp_all
  let ?later = "map (\<lambda>(index, windowMeta). (index * 100, windowMeta))
                  (enumerate (Suc k) (map metaJson rs'))"
  let ?w0 = "w\<lparr>timers := ?later\<rparr>"
  from Cons.prems(4) rs obtain u where r: "typedMeta r" "url r = Some (JStr u)" by auto
  let ?w1 = "snd (restoreWindow e a (metaJson r) ?w0)"
  from restoreWindow_saved(1) [OF r, of e a ?w0] obtain meta where
    fired: "managedWindows ?w1 = (managedWindows ?w0)(a \<mapsto> meta)"
    and same: "appType meta = appType r" "accountType meta = accountType r"
      "bounds meta = bounds r" "isMaximized meta = isMaximized r"
    by blast
  have bw: "map bw_id (browserWindows ?w1) = map bw_id (browserWindows w) @ [a]"
    using restoreWindow_saved(2) [OF r, of e a ?w0] by simp
  have sorted: "sort_key fst (timers w) = (k * 100, metaJson r) # ?later"
    unfolding Cons.prems(1) timers_in_order by (simp add: rs)
  have step: "fireTimers e (a # ids) w = fireTimers e ids ?w1"
    by (simp add: sorted)
  have t1: "timers ?w1 = ?later"
    using restoreWindow_saved(3) [OF r, of e a ?w0] by simp
  have d1: "distinct ids" using Cons.prems(3) by simp
  have r1: "\<forall>r \<in> set rs'. typedMeta r \<and> (\<exists>u. url r = Some (JStr u))"
    using Cons.prems(4) rs by simp
  note IH = Cons.IH [OF t1 len d1 r1]
  have fresh: "a \<notin> set ids" using Cons.prems(3) by simp
  have first: "managedWindows (fireTimers e ids ?w1) a = Some meta"
    using IH fresh fired by simp
  have nth: "\<exists>m. managedWindows (fireTimers e ids ?w1) ((a # ids) ! j) = Some m
          \<and> appType m = appType (rs ! j) \<and> accountType m = accountType (rs ! j)
          \<and> bounds m = bounds (rs ! j) \<and> isMaximized m = isMaximized (rs ! j)"
    if "j < length rs" for j
  proof (cases j)
    case 0
    then show ?thesis using first same rs by simp
  next
    case (Suc j')
    with that rs have "j' < length rs'" by simp
    with IH Suc rs show ?thesis by simp
  qed
  have others: "managedWindows (fireTimers e ids ?w1) i = managedWindows w i"
    if "i \<notin> set (a # ids)" for i
    using IH that fired by simp
  have order: "map bw_id (browserWindows (fireTimers e ids ?w1))
                 = map bw_id (browserWindows w) @ a # ids"
    using IH bw by simp
  show ?case
    unfolding step using IH nth others order by blast
qed

lemma restoreSession_saved:
  assumes "getValue (settings w) ''restoreSession'' = Some (JBool True)"
    and "sessionFile w = Some (Doc (JObj [(''version'', JNum 1), (''timestamp'', JNum t0),
                                          (''windows'', JArr windows)]))"
    and "now - t0 \<le> 24 * 60 * 60 * 1000"
  shows "restoreSession e now w =
     (windows \<noteq> [],
      if windows = [] then w
      else w\<lparr>timers := timers w @
             map (\<lambda>(index, windowMeta). (index * 100, windowMeta)) (enumerate 0 windows)\<rparr>)"
  using assms
  by (simp add: restoreSession_def field_def toNumber_def maxAge_def)

text \<open>
  C2. Let the registry hold records of the shape of the typedef, and let \<open>saveSession\<close>
  write its snapshot at time \<open>t0\<close> with session restore switched on. A later start that
  finds this file, with session restore on, no more than 24 hours after \<open>t0\<close>, sets one
  timer per record; as the timers fire, in the order of the snapshot, the window created for
  the \<open>j\<close>-th record is registered with the \<open>appType\<close>, \<open>accountType\<close>, \<open>bounds\<close> and
  \<open>isMaximized\<close> of that record, and the windows are constructed in that order.
  \<open>restoreSession\<close> answers true exactly when the snapshot has a record.
\<close>

theorem session_round_trip:
  assumes "getValue (settings w0) ''restoreSession'' = Some (JBool True)"
    and "\<forall>meta \<in> ran (managedWindows w0). typedMeta meta"
    and "sessionFile w = sessionFile (saveSession t0 allWindows w0)"
    and "getValue (settings w) ''restoreSession'' = Some (JBool True)"
    and "timers w = []"
    and "now - t0 \<le> 24 * 60 * 60 * 1000"
    and "distinct nativeIds"
    and "length nativeIds = length (getSessionState allWindows (managedWindows w0))"
  shows "(\<forall>j < length (getSessionState allWindows (managedWindows w0)).
           \<exists>meta. managedWindows (fireTimers e nativeIds (snd (restoreSession e now w)))
                    (nativeIds ! j) = Some meta
             \<and> appType meta = appType (getSessionState allWindows (managedWindows w0) ! j)
             \<and> accountType meta = accountType (getSessionState allWindows (managedWindows w0) ! j)
             \<and> bounds meta = bounds (getSessionState allWindows (managedWindows w0) ! j)
             \<and> isMaximized meta = isMaximized (getSessionState allWindows (managedWindows w0) ! j))
       \<and> map bw_id (browserWindows (fireTimers e nativeIds (snd (restoreSession e now w))))
           = map bw_id (browserWindows w) @ nativeIds
       \<and> fst (restoreSession e now w) = (getSessionState allWindows (managedWindows w0) \<noteq> [])"
proof -
  let ?snapshot = "getSessionState allWindows (managedWindows w0)"
  have saved: "sessionFile w = Some (Doc (JObj [(''version'', JNum 1), (''timestamp'', JNum t0),
      (''windows'', JArr (map metaJson ?snapshot))]))"
    using assms(1,3) by (simp add: saveSession_def Let_def)
  note restored = restoreSession_saved [OF assms(4) saved assms(6), of e]
  have typed: "\<forall>r \<in> set ?snapshot. typedMeta r \<and> (\<exists>u. url r = Some (JStr u))"
    using getSessionState_typed [OF assms(2)] by blast
  show ?thesis
  proof (cases "?snapshot = []")
    case True
    with assms(8) restored show ?thesis by simp
  next
    case False
    let ?w1 = "w\<lparr>timers := map (\<lambda>(index, windowMeta). (index * 100, windowMeta))
                              (enumerate 0 (map metaJson ?snapshot))\<rparr>"
    have w1: "restoreSession e now w = (True, ?w1)"
      using restored False assms(5) by simp
    have t1: "timers ?w1 = map (\<lambda>(index, windowMeta). (index * 100, windowMeta))
                              (enumerate 0 (map metaJson ?snapshot))"
      by simp
    from fireTimers_restores [OF t1 assms(8) assms(7) typed, of e] w1 False
    show ?thesis by simp
  qed
qed

theorem session_round_trip_witness:
  "map_option (\<lambda>meta. (appType meta, accountType meta, bounds meta, isMaximized meta))
     (managedWindows
        (fireTimers sampleEnv [7]
           (snd (restoreSession sampleEnv 5000
              (freshStart (sessionFile (saveSession 1000 [(1, maximizedWindow)] sampleWorld))))))
        7)
   = Some (JStr ''word'', JStr ''personal'',
           rectJson \<lparr>rect_x = 100, rect_y = 100, rect_width = 800, rect_height = 600\<rparr>,
           JBool True)"
proof -
  have snapshot: "getSessionState [(1, maximizedWindow)] (managedWindows sampleWorld)
      = [sampleMeta\<lparr>isMaximized := JBool True,
                    url := Some (JStr ''https://word.cloud.microsoft/open/Report.docx'')\<rparr>]"
    by (simp add: sampleWorld_def maximizedWindow_def sampleMeta_def)
  have typed: "\<forall>meta \<in> ran (managedWindows sampleWorld). typedMeta meta"
    by (simp add: sampleWorld_def sampleMeta_def typedMeta_def rectJson_def)
  have "getValue (settings sampleWorld) ''restoreSession'' = Some (JBool True)"
    and "sessionFile (freshStart (sessionFile (saveSession 1000 [(1, maximizedWindow)] sampleWorld)))
          = sessionFile (saveSession 1000 [(1, maximizedWindow)] sampleWorld)"
    and "getValue (settings (freshStart (sessionFile (saveSession 1000 [(1, maximizedWindow)] sampleWorld))))
           ''restoreSession'' = Some (JBool True)"
    and "timers (freshStart (sessionFile (saveSession 1000 [(1, maximizedWindow)] sampleWorld))) = []"
    and "(5000 :: int) - 1000 \<le> 24 * 60 * 60 * 1000"
    and "distinct [7 :: nat]"
    and "length [7 :: nat] = length (getSessionState [(1, maximizedWindow)] (managedWindows sampleWorld))"
    by (simp_all add: snapshot freshStart_def sampleWorld_def sampleStore_def getValue_def js_or_def)
  note round_trip = session_round_trip [OF this(1) typed this(2-7), of sampleEnv]
  from round_trip [unfolded snapshot] show ?thesis
    by (auto simp: sampleMeta_def)
qed

end
